theory Spec2Isabelle
  imports Main "HOL-Library.Word" "HOL-Library.AList"
begin

unbundle bit_operations_syntax

section \<open>The settings store of app/settings.go\<close>

text \<open>
  The development embeds the Go file \<^verbatim>\<open>app/settings.go\<close>: the persisted
  \<^verbatim>\<open>SettingsSchema\<close>, the in-memory \<^verbatim>\<open>settings\<close> struct and its methods.
  A method that only reads a field is a function of the struct it is called on, and the
  struct after the call is the struct before it. A method that writes returns the struct
  after the call. What a method does outside the struct (a value sent on a listener
  channel, a goroutine started, a line handed to \<^verbatim>\<open>fyne.LogError\<close>, a panic of the
  Go runtime) is returned beside it as a list of effects, in program order. A panic ends
  the call: it is the last effect, and nothing that follows it in the source is run.
\<close>

subsection \<open>Go values\<close>

text \<open>
  A \<^verbatim>\<open>float32\<close> is its IEEE 754 binary32 bit pattern: sign (bit 31), eight exponent
  bits, 23 fraction bits. A pattern is a NaN when the exponent is all ones and the
  fraction is not zero. Go's \<^verbatim>\<open><\<close> and \<^verbatim>\<open><=\<close> are false as soon as one operand is a
  NaN; otherwise they compare the values, and on binary32 the value order is the order of
  the sign-and-magnitude integers \<open>f32_ord\<close> (both zeros are 0 there).
\<close>

type_synonym float32 = "32 word"

definition f32_isNaN :: "float32 \<Rightarrow> bool" where
  "f32_isNaN w \<longleftrightarrow> w AND 0x7F800000 = 0x7F800000 \<and> w AND 0x007FFFFF \<noteq> 0"

definition f32_ord :: "float32 \<Rightarrow> int" where
  "f32_ord w = (if bit w 31 then - uint (w AND 0x7FFFFFFF) else uint (w AND 0x7FFFFFFF))"

definition f32_lt :: "float32 \<Rightarrow> float32 \<Rightarrow> bool" where
  "f32_lt a b \<longleftrightarrow> \<not> f32_isNaN a \<and> \<not> f32_isNaN b \<and> f32_ord a < f32_ord b"

definition f32_le :: "float32 \<Rightarrow> float32 \<Rightarrow> bool" where
  "f32_le a b \<longleftrightarrow> \<not> f32_isNaN a \<and> \<not> f32_isNaN b \<and> f32_ord a \<le> f32_ord b"

text \<open>The constants \<^verbatim>\<open>0.0\<close> and \<^verbatim>\<open>1.0\<close> of \<^verbatim>\<open>Scale\<close>, as binary32.\<close>

definition f32_zero :: float32 where
  "f32_zero = 0x00000000"

definition f32_one :: float32 where
  "f32_one = 0x3F800000"

text \<open>
  A \<^verbatim>\<open>fyne.Theme\<close> is an interface value: \<open>None\<close> is the nil interface, \<open>Some t\<close>
  a theme \<open>t\<close> of a type the file does not look into. A \<^verbatim>\<open>chan fyne.Settings\<close> is
  known by its identity. A Go \<^verbatim>\<open>error\<close> is kept as the text of its \<^verbatim>\<open>Error()\<close>
  (nil is \<open>None\<close>), a \<^verbatim>\<open>[]byte\<close> as a list of bytes (nil is \<open>None\<close>).
\<close>

datatype error = Error string

type_synonym 'th Theme = "'th option"

type_synonym chan = nat

type_synonym byte = "8 word"

text \<open>
  Modelled from the spec: \<^verbatim>\<open>fyne.ThemeVariant\<close>, \<^verbatim>\<open>theme.VariantLight\<close> and
  \<^verbatim>\<open>theme.VariantDark\<close> are declared in packages outside this file; the spec gives a
  variant as one of Light and Dark.
\<close>

datatype ThemeVariant = VariantLight | VariantDark

text \<open>
  Of a \<^verbatim>\<open>fyne.Resource\<close> the file reads \<^verbatim>\<open>Content()\<close> only.
\<close>

record Resource =
  Content :: "byte list option"

subsection \<open>Effects\<close>

text \<open>
  What a send on a channel would do at the moment it is tried: go through at once (a
  free buffer slot or a waiting receiver), block (also the nil channel), or panic because
  the channel's owner closed it.
\<close>

datatype chan_status = CanSend | WouldBlock | Closed

text \<open>
  \<open>ChanSend l\<close>: the \<^verbatim>\<open>select\<close> of \<^verbatim>\<open>apply\<close> sent the store \<^verbatim>\<open>s\<close> on \<open>l\<close>.
  \<open>GoSend l\<close>: \<^verbatim>\<open>apply\<close> started the goroutine \<^verbatim>\<open>func() { l <- s }()\<close>.
  \<open>LogError msg err\<close>: a call of \<^verbatim>\<open>fyne.LogError(msg, err)\<close>.
  \<open>Panic msg\<close>: the Go runtime panicked with \<open>msg\<close>.
\<close>

datatype effect =
    ChanSend chan
  | GoSend chan
  | LogError string "error option"
  | Panic string

fun panicked :: "effect list \<Rightarrow> bool" where
  "panicked [] = False"
| "panicked (Panic msg # effs) = True"
| "panicked (eff # effs) = panicked effs"

subsection \<open>The schema\<close>

record SettingsSchema =
  ThemeName :: string
  Scale :: float32
  PrimaryColor :: string
  CloudName :: string
  CloudConfig :: string
  DisableAnimations :: bool

subsection \<open>Collaborators\<close>

text \<open>
  The functions of other packages that the file calls are taken as they are found when
  the method runs: \<^verbatim>\<open>app.RootConfigDir\<close>, \<^verbatim>\<open>filepath.Join\<close>,
  \<^verbatim>\<open>fyne.LoadResourceFromPath\<close> (a resource and an error), \<^verbatim>\<open>os.IsNotExist\<close>,
  \<^verbatim>\<open>theme.FromJSONReader\<close> over the bytes read (a theme and an error),
  \<^verbatim>\<open>theme.DefaultTheme\<close>, \<^verbatim>\<open>os.Getenv\<close> and \<^verbatim>\<open>app.DefaultVariant\<close>.
\<close>

text \<open>
  Modelled from the spec: \<^verbatim>\<open>settings.loadFromFile\<close>, the persistence collaborator, is
  declared in another file of the package. \<open>loadFromFile path old\<close> is the schema
  after the settings document at \<open>path\<close> was decoded into the schema \<open>old\<close>, and the
  error of an unreadable or malformed document; an absent document is no error.
\<close>

record 'th platform =
  RootConfigDir :: string
  Join :: "string \<Rightarrow> string \<Rightarrow> string"
  LoadResourceFromPath :: "string \<Rightarrow> Resource option \<times> error option"
  IsNotExist :: "error \<Rightarrow> bool"
  FromJSONReader :: "byte list \<Rightarrow> 'th Theme \<times> error option"
  DefaultTheme :: "'th Theme"
  Getenv :: "string \<Rightarrow> string"
  DefaultVariant :: ThemeVariant
  loadFromFile :: "string \<Rightarrow> SettingsSchema \<Rightarrow> SettingsSchema \<times> error option"

subsection \<open>The store\<close>

text \<open>
  The struct \<^verbatim>\<open>settings\<close>. \<^verbatim>\<open>changeListeners\<close> is a \<^verbatim>\<open>sync.Map\<close> from channels to
  a dummy boolean, kept as an association list: \<^verbatim>\<open>Store\<close> is \<open>AList.update\<close>, and
  \<^verbatim>\<open>Range\<close> visits the entries in the order of the list (Go leaves the order open).
  \<^verbatim>\<open>propertyLock\<close> is taken and released inside each method and is free again when
  the method returns; \<^verbatim>\<open>watcher\<close> is not used in this file. Neither is a field here.
\<close>

record 'th settings =
  theme :: "'th Theme"
  themeSpecified :: bool
  variant :: ThemeVariant
  changeListeners :: "(chan \<times> bool) list"
  schema :: SettingsSchema

subsection \<open>Methods\<close>

text \<open>
  The methods \<^verbatim>\<open>PrimaryColor\<close>, \<^verbatim>\<open>Scale\<close>, \<^verbatim>\<open>ThemeVariant\<close> and \<^verbatim>\<open>apply\<close> carry
  the prefix \<open>settings_\<close>: their Go names are taken by a field, a type or a keyword.
\<close>

definition StoragePath :: "'th platform \<Rightarrow> string" where
  "StoragePath P = Join P (RootConfigDir P) ''settings.json''"

definition settings_PrimaryColor :: "'th settings \<Rightarrow> string" where
  "settings_PrimaryColor s = PrimaryColor (schema s)"

definition OverrideTheme ::
  "'th Theme \<Rightarrow> string \<Rightarrow> 'th settings \<Rightarrow> 'th settings \<times> effect list" where
  "OverrideTheme th name s =
     (s\<lparr>schema := (schema s)\<lparr>PrimaryColor := name\<rparr>, theme := th\<rparr>, [])"

text \<open>\<^verbatim>\<open>Theme\<close> is the one method that tests its receiver: \<open>None\<close> is the nil store.\<close>

definition Theme :: "'th settings option \<Rightarrow> 'th Theme \<times> effect list" where
  "Theme r =
     (case r of
        None \<Rightarrow>
          (None, [LogError ''Attempt to access current Fyne theme when no app is started'' None])
      | Some s \<Rightarrow> (theme s, []))"

definition ShowAnimations :: "bool \<Rightarrow> 'th settings \<Rightarrow> bool" where
  "ShowAnimations noAnimations s \<longleftrightarrow> \<not> DisableAnimations (schema s) \<and> \<not> noAnimations"

definition settings_ThemeVariant :: "'th settings \<Rightarrow> ThemeVariant" where
  "settings_ThemeVariant s = variant s"

definition settings_Scale :: "'th settings \<Rightarrow> float32" where
  "settings_Scale s =
     (if f32_lt (Scale (schema s)) f32_zero then f32_one else Scale (schema s))"

definition AddChangeListener :: "chan \<Rightarrow> 'th settings \<Rightarrow> 'th settings" where
  "AddChangeListener listener s =
     s\<lparr>changeListeners := AList.update listener True (changeListeners s)\<rparr>"

text \<open>
  \<^verbatim>\<open>apply\<close>: \<^verbatim>\<open>Range\<close> calls the function on each listener in turn. The
  \<^verbatim>\<open>select\<close> sends when the send can proceed at once, and takes the \<^verbatim>\<open>default\<close>
  branch, which starts a goroutine for the send, when the send would block. A send on a
  closed channel panics, inside a \<^verbatim>\<open>select\<close> too, and the listeners after it are not
  visited. The value sent is the store pointer \<^verbatim>\<open>s\<close> itself. \<open>status\<close> gives what a
  send on each channel would do while the loop runs.
\<close>

fun fan_out :: "(chan \<Rightarrow> chan_status) \<Rightarrow> (chan \<times> bool) list \<Rightarrow> effect list" where
  "fan_out status [] = []"
| "fan_out status ((listener, dummy) # rest) =
     (case status listener of
        CanSend \<Rightarrow> ChanSend listener # fan_out status rest
      | WouldBlock \<Rightarrow> GoSend listener # fan_out status rest
      | Closed \<Rightarrow> [Panic ''send on closed channel''])"

definition settings_apply :: "(chan \<Rightarrow> chan_status) \<Rightarrow> 'th settings \<Rightarrow> effect list" where
  "settings_apply status s = fan_out status (changeListeners s)"

definition applyTheme ::
  "(chan \<Rightarrow> chan_status) \<Rightarrow> 'th Theme \<Rightarrow> ThemeVariant \<Rightarrow> 'th settings \<Rightarrow> 'th settings \<times> effect list"
  where
  "applyTheme ready th v s =
     (let s' = s\<lparr>variant := v, theme := th\<rparr> in (s', settings_apply ready s'))"

definition applyVariant ::
  "(chan \<Rightarrow> chan_status) \<Rightarrow> ThemeVariant \<Rightarrow> 'th settings \<Rightarrow> 'th settings \<times> effect list" where
  "applyVariant ready v s =
     (let s' = s\<lparr>variant := v\<rparr> in (s', settings_apply ready s'))"

definition SetTheme ::
  "(chan \<Rightarrow> chan_status) \<Rightarrow> 'th Theme \<Rightarrow> 'th settings \<Rightarrow> 'th settings \<times> effect list" where
  "SetTheme ready th s =
     (let s' = s\<lparr>themeSpecified := True\<rparr> in applyTheme ready th (variant s') s')"

definition loadSystemTheme :: "'th platform \<Rightarrow> 'th Theme \<times> effect list" where
  "loadSystemTheme P =
     (let path = Join P (RootConfigDir P) ''theme.json'' in
      case LoadResourceFromPath P path of
        (data, Some err) \<Rightarrow>
          (DefaultTheme P,
           if \<not> IsNotExist P err
           then [LogError (''Failed to load user theme file: '' @ path) (Some err)]
           else [])
      | (data, None) \<Rightarrow>
          (case data of
             None \<Rightarrow> (DefaultTheme P, [])
           | Some d \<Rightarrow>
               (case Content d of
                  None \<Rightarrow> (DefaultTheme P, [])
                | Some bytes \<Rightarrow>
                    (case FromJSONReader P bytes of
                       (th, None) \<Rightarrow> (th, [])
                     | (th, Some err) \<Rightarrow>
                         (DefaultTheme P,
                          [LogError (''Failed to parse user theme file: '' @ path)
                             (Some err)])))))"

definition setupTheme ::
  "(chan \<Rightarrow> chan_status) \<Rightarrow> 'th platform \<Rightarrow> 'th settings \<Rightarrow> 'th settings \<times> effect list"
  where
  "setupTheme ready P s =
     (let name = ThemeName (schema s);
          env = Getenv P ''FYNE_THEME'';
          name = (if env \<noteq> [] then env else name);
          variant0 = DefaultVariant P;
          (effectiveTheme, logged) =
             (if \<not> themeSpecified s then loadSystemTheme P else (theme s, []));
          variant1 =
             (if name = ''light'' then VariantLight
              else if name = ''dark'' then VariantDark
              else variant0);
          (s', sent) = applyTheme ready effectiveTheme variant1 s
      in (s', logged @ sent))"

text \<open>
  Modelled from the spec: \<^verbatim>\<open>settings.load\<close> is declared in another file of the
  package. By the spec's data flow a reload reads the schema through the persistence
  collaborator and then runs the Theme Resolver, which is \<^verbatim>\<open>setupTheme\<close>; a store
  made by \<^verbatim>\<open>loadSettings\<close>, which calls \<^verbatim>\<open>load\<close> and nothing else, has its theme
  resolved by the same step. An unreadable settings document is logged, not returned.
\<close>

definition load ::
  "(chan \<Rightarrow> chan_status) \<Rightarrow> 'th platform \<Rightarrow> 'th settings \<Rightarrow> 'th settings \<times> effect list"
  where
  "load status P s =
     (let (persisted, err) = loadFromFile P (StoragePath P) (schema s);
          logged =
             (case err of
                None \<Rightarrow> []
              | Some e \<Rightarrow> [LogError ''Settings load error:'' (Some e)]);
          (s', effs) = setupTheme status P (s\<lparr>schema := persisted\<rparr>)
      in (s', logged @ effs))"


subsection \<open>Later calls\<close>



subsection \<open>Open listeners\<close>

text \<open>No registered listener channel is closed.\<close>

definition listeners_open :: "(chan \<Rightarrow> chan_status) \<Rightarrow> 'th settings \<Rightarrow> bool" where
  "listeners_open status s \<longleftrightarrow>
     list_all (\<lambda>(listener, dummy). status listener \<noteq> Closed) (changeListeners s)"

subsection \<open>Sample inputs\<close>

text \<open>
  A schema, a store with two listeners and a platform, used where a property is evaluated
  on a concrete input. The platform is given by what loading the theme file returns,
  what parsing returns and the value of \<^verbatim>\<open>FYNE_THEME\<close>; it has no settings
  document.
\<close>

definition sample_schema :: SettingsSchema where
  "sample_schema =
     \<lparr>ThemeName = ''dark'', Scale = f32_one, PrimaryColor = ''blue'',
      CloudName = [], CloudConfig = [], DisableAnimations = False\<rparr>"

definition sample_store :: "nat settings" where
  "sample_store =
     \<lparr>theme = Some 7, themeSpecified = False, variant = VariantLight,
      changeListeners = [(1, True), (2, True)], schema = sample_schema\<rparr>"

definition sample_platform ::
  "Resource option \<times> error option \<Rightarrow> nat Theme \<times> error option \<Rightarrow> string
     \<Rightarrow> nat platform" where
  "sample_platform loaded parsed env =
     \<lparr>RootConfigDir = ''/cfg'',
      Join = (\<lambda>a b. a @ ''/'' @ b),
      LoadResourceFromPath = (\<lambda>path. loaded),
      IsNotExist = (\<lambda>err. err = Error ''file does not exist''),
      FromJSONReader = (\<lambda>bytes. parsed),
      DefaultTheme = Some 0,
      Getenv = (\<lambda>key. if key = ''FYNE_THEME'' then env else []),
      DefaultVariant = VariantDark,
      loadFromFile = (\<lambda>path old. (old, None))\<rparr>"

text \<open>
  Three outcomes of loading the user theme file: the file is absent; the read fails for
  another reason; the file is read and its content does not parse.
\<close>

definition absent_platform :: "nat platform" where
  "absent_platform = sample_platform (None, Some (Error ''file does not exist'')) (None, None) []"

definition unreadable_platform :: "nat platform" where
  "unreadable_platform = sample_platform (None, Some (Error ''permission denied'')) (None, None) []"

definition malformed_platform :: "nat platform" where
  "malformed_platform =
     sample_platform (Some \<lparr>Content = Some [0x7B, 0x5D]\<rparr>, None)
       (None, Some (Error ''invalid character'')) ''light''"


definition one_receiving :: "chan \<Rightarrow> chan_status" where
  "one_receiving l = (if l = 1 then CanSend else WouldBlock)"

definition two_closed :: "chan \<Rightarrow> chan_status" where
  "two_closed l = (if l = 2 then Closed else CanSend)"

section \<open>Properties\<close>

subsection \<open>Auxiliary facts\<close>

lemma f32_zero_ord: "\<not> f32_isNaN f32_zero" "f32_ord f32_zero = 0"
  by (simp_all add: f32_isNaN_def f32_ord_def f32_zero_def)

lemma f32_one_ord: "\<not> f32_isNaN f32_one" "f32_ord f32_one = 1065353216"
  by (simp_all add: f32_isNaN_def f32_ord_def f32_one_def)

lemma f32_one_not_negative: "\<not> f32_lt f32_one f32_zero"
  by (simp add: f32_lt_def f32_zero_ord f32_one_ord)


lemma fan_out_open:
  "list_all (\<lambda>(listener, dummy). status listener \<noteq> Closed) ls
     \<Longrightarrow> fan_out status ls =
         map (\<lambda>(listener, dummy).
                if status listener = CanSend then ChanSend listener else GoSend listener) ls"
  by (induction ls) (auto split: chan_status.splits)

lemma fan_out_length: "length (fan_out status ls) \<le> length ls"
  by (induction ls) (auto split: chan_status.splits)

lemma fan_out_Nil: "fan_out status ls = [] \<longleftrightarrow> ls = []"
  by (cases ls) (auto split: chan_status.splits)

lemma fan_out_ChanSend: "ChanSend l \<in> set (fan_out status ls) \<Longrightarrow> status l = CanSend"
  by (induction ls) (auto split: chan_status.splits)

lemma fan_out_GoSend: "GoSend l \<in> set (fan_out status ls) \<Longrightarrow> status l = WouldBlock"
  by (induction ls) (auto split: chan_status.splits)


lemma settings_apply_open:
  "listeners_open status s
     \<Longrightarrow> settings_apply status s =
         map (\<lambda>(listener, dummy).
                if status listener = CanSend then ChanSend listener else GoSend listener)
           (changeListeners s)"
  by (simp add: settings_apply_def listeners_open_def fan_out_open)

lemma fan_out_panicked:
  "panicked (fan_out status ls)
     \<longleftrightarrow> \<not> list_all (\<lambda>(listener, dummy). status listener \<noteq> Closed) ls"
  by (induction ls) (auto split: chan_status.splits)

lemma settings_apply_panicked:
  "panicked (settings_apply status s) \<longleftrightarrow> \<not> listeners_open status s"
  by (simp add: settings_apply_def listeners_open_def fan_out_panicked)

lemma settings_apply_closed_sample:
  "settings_apply two_closed sample_store = [ChanSend 1, Panic ''send on closed channel'']"
  by (simp add: settings_apply_def sample_store_def two_closed_def)


lemma applyTheme_store:
  "fst (applyTheme ready th v s) = s\<lparr>variant := v, theme := th\<rparr>"
  by (simp add: applyTheme_def Let_def)

lemma SetTheme_store:
  "fst (SetTheme ready th s) = s\<lparr>themeSpecified := True, theme := th\<rparr>"
  by (simp add: SetTheme_def Let_def applyTheme_store)


lemma loadSystemTheme_result:
  "fst (loadSystemTheme P) = DefaultTheme P
   \<or> (\<exists>r bytes.
         LoadResourceFromPath P (Join P (RootConfigDir P) ''theme.json'') = (Some r, None)
         \<and> Content r = Some bytes
         \<and> FromJSONReader P bytes = (fst (loadSystemTheme P), None))"
  by (auto simp: loadSystemTheme_def Let_def split: prod.splits option.splits)

lemma setupTheme_store:
  "fst (setupTheme ready P s) =
     s\<lparr>variant :=
          (let env = Getenv P ''FYNE_THEME'';
               name = (if env \<noteq> [] then env else ThemeName (schema s))
           in if name = ''light'' then VariantLight
              else if name = ''dark'' then VariantDark
              else DefaultVariant P),
       theme := (if themeSpecified s then theme s else fst (loadSystemTheme P))\<rparr>"
  by (simp add: setupTheme_def Let_def split_def applyTheme_store)







subsection \<open>Claims\<close>

text \<open>
  Claim C5. Whatever the store, and for each value of the schema's
  \<^verbatim>\<open>DisableAnimations\<close> and of the package flag \<^verbatim>\<open>noAnimations\<close>,
  \<^verbatim>\<open>ShowAnimations\<close> is false exactly when one of the two is set; the four rows of
  the truth table are listed.
\<close>

theorem ShowAnimations_truth_table:
  "(\<not> ShowAnimations noAnimations s) = (DisableAnimations (schema s) \<or> noAnimations)
   \<and> ShowAnimations False (s\<lparr>schema := (schema s)\<lparr>DisableAnimations := False\<rparr>\<rparr>)
   \<and> \<not> ShowAnimations True (s\<lparr>schema := (schema s)\<lparr>DisableAnimations := False\<rparr>\<rparr>)
   \<and> \<not> ShowAnimations False (s\<lparr>schema := (schema s)\<lparr>DisableAnimations := True\<rparr>\<rparr>)
   \<and> \<not> ShowAnimations True (s\<lparr>schema := (schema s)\<lparr>DisableAnimations := True\<rparr>\<rparr>)"
  by (simp add: ShowAnimations_def)

text \<open>
  Claim C1, as the claim states it, fails where the stored scale is zero: the guard of
  \<^verbatim>\<open>Scale\<close> is \<^verbatim>\<open>s.schema.Scale < 0.0\<close>, so a stored \<open>0.0\<close>, which is \<open>\<le> 0\<close>, is
  returned as it is; the value read is then neither \<open>1.0\<close> nor \<open>> 0\<close>.
\<close>

theorem settings_Scale_zero_counterexample:
  "f32_le (Scale (schema (sample_store\<lparr>schema := sample_schema\<lparr>Scale := f32_zero\<rparr>\<rparr>))) f32_zero
   \<and> settings_Scale (sample_store\<lparr>schema := sample_schema\<lparr>Scale := f32_zero\<rparr>\<rparr>) = f32_zero
   \<and> settings_Scale (sample_store\<lparr>schema := sample_schema\<lparr>Scale := f32_zero\<rparr>\<rparr>) \<noteq> f32_one
   \<and> \<not> f32_lt f32_zero
         (settings_Scale (sample_store\<lparr>schema := sample_schema\<lparr>Scale := f32_zero\<rparr>\<rparr>))"
  by (simp add: settings_Scale_def f32_le_def f32_lt_def f32_zero_ord)
    (simp add: f32_zero_def f32_one_def)

text \<open>
  Claim C1, amended. \<^verbatim>\<open>Scale\<close> returns exactly \<open>1.0\<close> when the stored scale is below
  zero, and returns the stored scale unchanged in every other case (zero, above zero, or
  a NaN, which compares below nothing). The value read is therefore never below zero.
  The method is a function of the store: the stored \<^verbatim>\<open>schema.Scale\<close> is not written
  by the read.
\<close>

theorem settings_Scale_negative_only:
  "(f32_lt (Scale (schema s)) f32_zero \<longrightarrow> settings_Scale s = f32_one)
   \<and> (\<not> f32_lt (Scale (schema s)) f32_zero \<longrightarrow> settings_Scale s = Scale (schema s))
   \<and> \<not> f32_lt (settings_Scale s) f32_zero"
  by (simp add: settings_Scale_def f32_one_not_negative)

text \<open>
  The amended claim at a stored \<open>-1.0\<close> (\<open>0xBF800000\<close>, the old "auto" value) and at a
  stored \<open>2.0\<close> (\<open>0x40000000\<close>).
\<close>

theorem settings_Scale_negative_only_witness:
  "f32_lt (Scale (schema (sample_store\<lparr>schema := sample_schema\<lparr>Scale := 0xBF800000\<rparr>\<rparr>))) f32_zero
   \<and> settings_Scale (sample_store\<lparr>schema := sample_schema\<lparr>Scale := 0xBF800000\<rparr>\<rparr>) = f32_one
   \<and> \<not> f32_lt (Scale (schema (sample_store\<lparr>schema := sample_schema\<lparr>Scale := 0x40000000\<rparr>\<rparr>))) f32_zero
   \<and> settings_Scale (sample_store\<lparr>schema := sample_schema\<lparr>Scale := 0x40000000\<rparr>\<rparr>) = 0x40000000"
proof -
  have neg: "f32_lt (0xBF800000 :: float32) f32_zero"
    by (simp add: f32_lt_def f32_isNaN_def f32_ord_def f32_zero_def)
  have pos: "\<not> f32_lt (0x40000000 :: float32) f32_zero"
    by (simp add: f32_lt_def f32_isNaN_def f32_ord_def f32_zero_def)
  show ?thesis
    using neg pos
      settings_Scale_negative_only
        [of "sample_store\<lparr>schema := sample_schema\<lparr>Scale := 0xBF800000\<rparr>\<rparr>"]
      settings_Scale_negative_only
        [of "sample_store\<lparr>schema := sample_schema\<lparr>Scale := 0x40000000\<rparr>\<rparr>"]
    by simp
qed

text \<open>
  Claim C9. \<^verbatim>\<open>Theme\<close> called on the nil store returns nil after one call of
  \<^verbatim>\<open>fyne.LogError\<close>, and does not panic; called on a store it returns the store's
  \<^verbatim>\<open>theme\<close> field and has no effect.
\<close>

theorem Theme_nil_receiver:
  "Theme None =
     (None, [LogError ''Attempt to access current Fyne theme when no app is started'' None])
   \<and> Theme (Some s) = (theme s, [])"
  by (simp add: Theme_def)

text \<open>
  Claim C3. In \<^verbatim>\<open>setupTheme\<close> the candidate name is the schema's \<^verbatim>\<open>ThemeName\<close>,
  replaced by the value of \<^verbatim>\<open>FYNE_THEME\<close> when that value is not empty. The store's
  variant after the call is Light for the name \<open>light\<close>, Dark for the name \<open>dark\<close>,
  and for every other name, the empty one included, the variant that
  \<^verbatim>\<open>app.DefaultVariant\<close> returned.
\<close>

theorem setupTheme_variant:
  "variant (fst (setupTheme ready P s)) =
     (let env = Getenv P ''FYNE_THEME'';
          name = (if env \<noteq> [] then env else ThemeName (schema s))
      in if name = ''light'' then VariantLight
         else if name = ''dark'' then VariantDark
         else DefaultVariant P)"
  by (simp add: setupTheme_store)

text \<open>
  Claim C6. \<^verbatim>\<open>loadSystemTheme\<close> returns a theme and nothing else, whatever loading the
  user theme file gives. When the read fails with an error that \<^verbatim>\<open>os.IsNotExist\<close>
  accepts, the result is the built-in default and nothing is logged. When the read fails
  with another error, or the content read does not parse, the result is the built-in
  default after one call of \<^verbatim>\<open>fyne.LogError\<close> that carries the path and the error.
  In every case the result is the built-in default or the theme the parser returned
  without an error, and \<^verbatim>\<open>setupTheme\<close> stores it when no theme was set by the
  application: no error reaches the caller of setup.
\<close>

theorem loadSystemTheme_degrades:
  "(LoadResourceFromPath P (Join P (RootConfigDir P) ''theme.json'') = (d, Some err)
      \<and> IsNotExist P err
      \<longrightarrow> loadSystemTheme P = (DefaultTheme P, []))
   \<and> (LoadResourceFromPath P (Join P (RootConfigDir P) ''theme.json'') = (d, Some err)
      \<and> \<not> IsNotExist P err
      \<longrightarrow> loadSystemTheme P =
            (DefaultTheme P,
             [LogError
                (''Failed to load user theme file: '' @ Join P (RootConfigDir P) ''theme.json'')
                (Some err)]))
   \<and> (LoadResourceFromPath P (Join P (RootConfigDir P) ''theme.json'') = (Some r, None)
      \<and> Content r = Some bytes \<and> FromJSONReader P bytes = (th, Some perr)
      \<longrightarrow> loadSystemTheme P =
            (DefaultTheme P,
             [LogError
                (''Failed to parse user theme file: '' @ Join P (RootConfigDir P) ''theme.json'')
                (Some perr)]))
   \<and> (fst (loadSystemTheme P) = DefaultTheme P
      \<or> (\<exists>r bytes.
            LoadResourceFromPath P (Join P (RootConfigDir P) ''theme.json'') = (Some r, None)
            \<and> Content r = Some bytes
            \<and> FromJSONReader P bytes = (fst (loadSystemTheme P), None)))
   \<and> theme (fst (setupTheme ready P s)) =
       (if themeSpecified s then theme s else fst (loadSystemTheme P))"
proof -
  have absent:
    "LoadResourceFromPath P (Join P (RootConfigDir P) ''theme.json'') = (d, Some err)
       \<and> IsNotExist P err
     \<longrightarrow> loadSystemTheme P = (DefaultTheme P, [])"
    by (simp add: loadSystemTheme_def Let_def)
  have unreadable:
    "LoadResourceFromPath P (Join P (RootConfigDir P) ''theme.json'') = (d, Some err)
       \<and> \<not> IsNotExist P err
     \<longrightarrow> loadSystemTheme P =
           (DefaultTheme P,
            [LogError
               (''Failed to load user theme file: '' @ Join P (RootConfigDir P) ''theme.json'')
               (Some err)])"
    by (simp add: loadSystemTheme_def Let_def)
  have malformed:
    "LoadResourceFromPath P (Join P (RootConfigDir P) ''theme.json'') = (Some r, None)
       \<and> Content r = Some bytes \<and> FromJSONReader P bytes = (th, Some perr)
     \<longrightarrow> loadSystemTheme P =
           (DefaultTheme P,
            [LogError
               (''Failed to parse user theme file: '' @ Join P (RootConfigDir P) ''theme.json'')
               (Some perr)])"
    by (simp add: loadSystemTheme_def Let_def)
  have stored:
    "theme (fst (setupTheme ready P s)) =
       (if themeSpecified s then theme s else fst (loadSystemTheme P))"
    by (simp add: setupTheme_store)
  from absent unreadable malformed loadSystemTheme_result [of P] stored
  show ?thesis by blast
qed

text \<open>
  Claim C6 on the three sample platforms: theme file absent, read refused, content
  malformed.
\<close>

theorem loadSystemTheme_degrades_witness:
  "LoadResourceFromPath absent_platform
       (Join absent_platform (RootConfigDir absent_platform) ''theme.json'')
     = (None, Some (Error ''file does not exist''))
   \<and> IsNotExist absent_platform (Error ''file does not exist'')
   \<and> loadSystemTheme absent_platform = (Some 0, [])
   \<and> LoadResourceFromPath unreadable_platform
       (Join unreadable_platform (RootConfigDir unreadable_platform) ''theme.json'')
     = (None, Some (Error ''permission denied''))
   \<and> \<not> IsNotExist unreadable_platform (Error ''permission denied'')
   \<and> loadSystemTheme unreadable_platform =
       (Some 0,
        [LogError ''Failed to load user theme file: /cfg/theme.json''
           (Some (Error ''permission denied''))])
   \<and> LoadResourceFromPath malformed_platform
       (Join malformed_platform (RootConfigDir malformed_platform) ''theme.json'')
     = (Some \<lparr>Content = Some [0x7B, 0x5D]\<rparr>, None)
   \<and> FromJSONReader malformed_platform [0x7B, 0x5D] = (None, Some (Error ''invalid character''))
   \<and> loadSystemTheme malformed_platform =
       (Some 0,
        [LogError ''Failed to parse user theme file: /cfg/theme.json''
           (Some (Error ''invalid character''))])"
  using
    loadSystemTheme_degrades [where P = absent_platform and d = None
      and err = "Error ''file does not exist''"]
    loadSystemTheme_degrades [where P = unreadable_platform and d = None
      and err = "Error ''permission denied''"]
    loadSystemTheme_degrades [where P = malformed_platform
      and r = "\<lparr>Content = Some [0x7B, 0x5D]\<rparr>" and bytes = "[0x7B, 0x5D]" and th = None
      and perr = "Error ''invalid character''"]
  by (simp add: absent_platform_def unreadable_platform_def malformed_platform_def
      sample_platform_def)

text \<open>
  Claim C10. \<^verbatim>\<open>OverrideTheme\<close> leaves the override flag, the variant, the listeners
  and every schema field but \<^verbatim>\<open>PrimaryColor\<close> as they were. On a store whose flag
  is not set (no \<^verbatim>\<open>SetTheme\<close> before), a following \<^verbatim>\<open>setupTheme\<close> stores the result
  of \<^verbatim>\<open>loadSystemTheme\<close>, which is the parsed user theme or the built-in default, in
  place of the previewed theme.
\<close>

theorem OverrideTheme_frame_then_setup:
  "(case OverrideTheme t c s of
      (s', effs) \<Rightarrow>
        themeSpecified s' = themeSpecified s \<and> variant s' = variant s
        \<and> changeListeners s' = changeListeners s
        \<and> schema s' = (schema s)\<lparr>PrimaryColor := c\<rparr>
        \<and> ThemeName (schema s') = ThemeName (schema s)
        \<and> Scale (schema s') = Scale (schema s)
        \<and> CloudName (schema s') = CloudName (schema s)
        \<and> CloudConfig (schema s') = CloudConfig (schema s)
        \<and> DisableAnimations (schema s') = DisableAnimations (schema s)
        \<and> (\<not> themeSpecified s \<longrightarrow>
              theme (fst (setupTheme ready P s')) = fst (loadSystemTheme P)
              \<and> (fst (loadSystemTheme P) = DefaultTheme P
                 \<or> (\<exists>r bytes.
                       LoadResourceFromPath P (Join P (RootConfigDir P) ''theme.json'')
                         = (Some r, None)
                       \<and> Content r = Some bytes
                       \<and> FromJSONReader P bytes = (fst (loadSystemTheme P), None)))))"
  using loadSystemTheme_result [of P]
  by (simp add: OverrideTheme_def setupTheme_store)

text \<open>
  Claim C10 on the sample store, whose flag is not set: the theme \<open>Some 9\<close> is previewed,
  then setup runs where the user theme file is malformed, and the store holds the
  built-in default \<open>Some 0\<close>.
\<close>

theorem OverrideTheme_frame_then_setup_witness:
  "\<not> themeSpecified sample_store
   \<and> theme (fst (OverrideTheme (Some 9) ''red'' sample_store)) = Some 9
   \<and> theme (fst (setupTheme (\<lambda>l. CanSend) malformed_platform
        (fst (OverrideTheme (Some 9) ''red'' sample_store)))) = Some 0"
proof -
  have unset: "\<not> themeSpecified sample_store"
    by (simp add: sample_store_def)
  have loaded: "fst (loadSystemTheme malformed_platform) = Some 0"
    by (simp add: loadSystemTheme_def malformed_platform_def sample_platform_def)
  show ?thesis
    using unset loaded
      OverrideTheme_frame_then_setup [where t = "Some 9" and c = "''red''"
        and s = sample_store and ready = "\<lambda>l. CanSend" and P = malformed_platform]
    by (simp add: OverrideTheme_def)
qed

text \<open>
  Claim C2. In the loop of \<^verbatim>\<open>apply\<close> a send on a listener channel happens only
  where the send goes through at once, and a goroutine is started only where the send
  would block: the loop itself never waits on a listener, and it ends after at most one
  step for each registered listener. When no listener channel is closed the loop visits
  every registered listener and takes exactly one step for each, however many of them
  are not receiving; a listener that can take the send gets it on the spot, and one that
  cannot is not dropped but handed to a goroutine of its own. Elapsed time is not part
  of the model: the bound is the number of steps.
\<close>

theorem apply_never_blocks:
  "(ChanSend l \<in> set (settings_apply status s) \<longrightarrow> status l = CanSend)
   \<and> (GoSend l \<in> set (settings_apply status s) \<longrightarrow> status l = WouldBlock)
   \<and> length (settings_apply status s) \<le> length (changeListeners s)
   \<and> (listeners_open status s \<longrightarrow>
         settings_apply status s =
           map (\<lambda>(listener, dummy).
                  if status listener = CanSend then ChanSend listener else GoSend listener)
             (changeListeners s)
         \<and> length (settings_apply status s) = length (changeListeners s)
         \<and> (\<forall>entry \<in> set (changeListeners s).
               (status (fst entry) = CanSend
                  \<longrightarrow> ChanSend (fst entry) \<in> set (settings_apply status s))
               \<and> (status (fst entry) = WouldBlock
                  \<longrightarrow> GoSend (fst entry) \<in> set (settings_apply status s))))"
proof -
  have sends: "ChanSend l \<in> set (settings_apply status s) \<longrightarrow> status l = CanSend"
    by (auto simp: settings_apply_def dest: fan_out_ChanSend)
  have spawns: "GoSend l \<in> set (settings_apply status s) \<longrightarrow> status l = WouldBlock"
    by (auto simp: settings_apply_def dest: fan_out_GoSend)
  have each:
    "settings_apply status s =
       map (\<lambda>(listener, dummy).
              if status listener = CanSend then ChanSend listener else GoSend listener)
         (changeListeners s)
     \<and> length (settings_apply status s) = length (changeListeners s)
     \<and> (\<forall>entry \<in> set (changeListeners s).
           (status (fst entry) = CanSend
              \<longrightarrow> ChanSend (fst entry) \<in> set (settings_apply status s))
           \<and> (status (fst entry) = WouldBlock
              \<longrightarrow> GoSend (fst entry) \<in> set (settings_apply status s)))"
    if "listeners_open status s"
    using settings_apply_open [OF that] by (force simp: image_iff split_def)
  have bound: "length (settings_apply status s) \<le> length (changeListeners s)"
    by (simp add: settings_apply_def fan_out_length)
  from sends spawns bound each show ?thesis by blast
qed

text \<open>
  Claim C2 on the sample store: listener 1 takes the send at once, listener 2 has nobody
  receiving, and no channel is closed.
\<close>

theorem apply_never_blocks_witness:
  "ChanSend 1 \<in> set (settings_apply one_receiving sample_store)
   \<and> one_receiving 1 = CanSend
   \<and> GoSend 2 \<in> set (settings_apply one_receiving sample_store)
   \<and> one_receiving 2 = WouldBlock
   \<and> listeners_open one_receiving sample_store
   \<and> settings_apply one_receiving sample_store = [ChanSend 1, GoSend 2]"
proof -
  have run: "settings_apply one_receiving sample_store = [ChanSend 1, GoSend 2]"
    by (simp add: settings_apply_def sample_store_def one_receiving_def)
  have opened: "listeners_open one_receiving sample_store"
    by (simp add: listeners_open_def sample_store_def one_receiving_def)
  show ?thesis
    using run opened
      apply_never_blocks [where l = 1 and status = one_receiving and s = sample_store]
      apply_never_blocks [where l = 2 and status = one_receiving and s = sample_store]
    by simp
qed

text \<open>
  Claim C7. \<^verbatim>\<open>SetTheme(t)\<close> leaves the store with \<^verbatim>\<open>themeSpecified\<close> true, with
  \<open>t\<close> as its theme and with the variant, the schema and the listeners it had, and
  then runs \<^verbatim>\<open>apply\<close> on that store. When no listener channel is closed, every
  registered listener is notified once, in \<^verbatim>\<open>Range\<close> order: by the send itself where
  it goes through at once, by a goroutine otherwise. After a second \<^verbatim>\<open>SetTheme\<close> the
  flag is still true.
\<close>

theorem SetTheme_flag_theme_notify:
  "(case SetTheme status t s of
      (s', effs) \<Rightarrow>
        themeSpecified s' \<and> theme s' = t \<and> variant s' = variant s
        \<and> schema s' = schema s \<and> changeListeners s' = changeListeners s
        \<and> effs = settings_apply status s'
        \<and> (listeners_open status s \<longrightarrow>
              effs =
                map (\<lambda>(listener, dummy).
                       if status listener = CanSend then ChanSend listener
                       else GoSend listener)
                  (changeListeners s))
        \<and> themeSpecified (fst (SetTheme status' t' s')))"
proof -
  let ?s' = "s\<lparr>themeSpecified := True, theme := t\<rparr>"
  have whole: "SetTheme status t s = (?s', settings_apply status ?s')"
    by (simp add: SetTheme_def Let_def applyTheme_def)
  have opened: "listeners_open status ?s'" if "listeners_open status s"
    using that by (simp add: listeners_open_def)
  have sent:
    "listeners_open status s \<longrightarrow>
       settings_apply status ?s' =
         map (\<lambda>(listener, dummy).
                if status listener = CanSend then ChanSend listener else GoSend listener)
           (changeListeners s)"
    using settings_apply_open [OF opened] by simp
  from sent show ?thesis
    by (simp add: whole SetTheme_store)
qed

text \<open>
  Claim C7 on the sample store, with listener 1 receiving and listener 2 not.
\<close>

theorem SetTheme_flag_theme_notify_witness:
  "listeners_open one_receiving sample_store
   \<and> SetTheme one_receiving (Some 3) sample_store =
       (sample_store\<lparr>themeSpecified := True, theme := Some 3\<rparr>, [ChanSend 1, GoSend 2])"
proof -
  have opened: "listeners_open one_receiving sample_store"
    by (simp add: listeners_open_def sample_store_def one_receiving_def)
  have sends:
    "map (\<lambda>(listener, dummy).
            if one_receiving listener = CanSend then ChanSend listener else GoSend listener)
       (changeListeners sample_store) = [ChanSend 1, GoSend 2]"
    by (simp add: sample_store_def one_receiving_def)
  show ?thesis
    using opened sends
      SetTheme_flag_theme_notify
        [where status = one_receiving and t = "Some 3" and s = sample_store]
    by (simp add: SetTheme_store split: prod.splits)
qed

text \<open>
  Claim C8. \<^verbatim>\<open>OverrideTheme(t, c)\<close> writes \<open>c\<close> to \<^verbatim>\<open>schema.PrimaryColor\<close> and
  \<open>t\<close> to \<^verbatim>\<open>theme\<close>, and has no effect outside the store: nothing is sent on a
  listener channel and no goroutine is started. \<^verbatim>\<open>SetTheme\<close> differs: it has an
  effect outside the store as soon as one listener is registered, and when no listener
  channel is closed it notifies every registered listener.
\<close>

theorem OverrideTheme_no_notification:
  "(case OverrideTheme t c s of
      (s', effs) \<Rightarrow> PrimaryColor (schema s') = c \<and> theme s' = t \<and> effs = [])
   \<and> (snd (SetTheme status t s) = []) = (changeListeners s = [])
   \<and> (listeners_open status s \<longrightarrow>
         snd (SetTheme status t s) =
           map (\<lambda>(listener, dummy).
                  if status listener = CanSend then ChanSend listener else GoSend listener)
             (changeListeners s))"
proof -
  let ?s' = "s\<lparr>themeSpecified := True, theme := t\<rparr>"
  have effects: "snd (SetTheme status t s) = settings_apply status ?s'"
    by (simp add: SetTheme_def Let_def applyTheme_def)
  have opened: "listeners_open status ?s'" if "listeners_open status s"
    using that by (simp add: listeners_open_def)
  have sent:
    "listeners_open status s \<longrightarrow>
       settings_apply status ?s' =
         map (\<lambda>(listener, dummy).
                if status listener = CanSend then ChanSend listener else GoSend listener)
           (changeListeners s)"
    using settings_apply_open [OF opened] by simp
  from sent show ?thesis
    by (simp add: effects OverrideTheme_def) (simp add: settings_apply_def fan_out_Nil)
qed

text \<open>
  Claim C8 on the sample store: the preview reaches no listener, \<^verbatim>\<open>SetTheme\<close> reaches
  both.
\<close>

theorem OverrideTheme_no_notification_witness:
  "listeners_open one_receiving sample_store
   \<and> snd (OverrideTheme (Some 9) ''red'' sample_store) = []
   \<and> snd (SetTheme one_receiving (Some 9) sample_store) = [ChanSend 1, GoSend 2]"
proof -
  have opened: "listeners_open one_receiving sample_store"
    by (simp add: listeners_open_def sample_store_def one_receiving_def)
  have sends:
    "map (\<lambda>(listener, dummy).
            if one_receiving listener = CanSend then ChanSend listener else GoSend listener)
       (changeListeners sample_store) = [ChanSend 1, GoSend 2]"
    by (simp add: sample_store_def one_receiving_def)
  show ?thesis
    using opened sends
      OverrideTheme_no_notification
        [where t = "Some 9" and c = "''red''" and s = sample_store
           and status = one_receiving]
    by (simp split: prod.splits)
qed




end
